theory Spec2Isabelle
  imports Complex_Main
begin

section \<open>JavaScript values, objects and the console\<close>

text \<open>
  The item-mod script (\<^verbatim>\<open>game.ItemModType\<close> and \<^verbatim>\<open>game.ItemMod\<close>,
  the second script of \<^verbatim>\<open>src/js/HammerHelper.js\<close>) never computes with a
  number: it reads fields, compares the \<^verbatim>\<open>type\<close> field with four string
  constants, passes field values on to constructors and appends values to string
  literals. The type of numbers is therefore a parameter \<open>'n\<close> (an IEEE double in the
  browser), and so is the conversion of a number to its decimal text,
  \<open>numberToString\<close>.

  A persisted record is flat: its fields hold primitive values. A field that is not
  there reads as \<^verbatim>\<open>undefined\<close>.
\<close>

datatype 'n jsval = JSUndefined | JSNull | JSBoolean bool | JSNumber 'n | JSString string

text \<open>The conversion \<^verbatim>\<open>'text' + v\<close> applies to \<open>v\<close>.\<close>

fun ToString :: "('n \<Rightarrow> string) \<Rightarrow> 'n jsval \<Rightarrow> string" where
  "ToString numberToString JSUndefined = ''undefined''"
| "ToString numberToString JSNull = ''null''"
| "ToString numberToString (JSBoolean b) = (if b then ''true'' else ''false'')"
| "ToString numberToString (JSNumber n) = numberToString n"
| "ToString numberToString (JSString s) = s"

text \<open>
  An object is its own properties together with the prototype that its constructor gave
  it. A record parsed from storage is a plain object (\<open>Object_prototype\<close>).
\<close>

datatype prototype =
    Object_prototype
  | ItemMod_prototype
  | LifeLeech_prototype
  | Thorns_prototype
  | ReduceDamage_prototype
  | MultipleProjectiles_prototype

record 'n object =
  prototype :: prototype
  properties :: "string \<rightharpoonup> 'n jsval"

text \<open>Reading \<^verbatim>\<open>obj.p\<close>: none of the prototypes holds a data property.\<close>

definition Get :: "'n object \<Rightarrow> string \<Rightarrow> 'n jsval" where
  "Get obj p = (case properties obj p of None \<Rightarrow> JSUndefined | Some v \<Rightarrow> v)"

text \<open>
  Reading \<^verbatim>\<open>xs[i]\<close>: past the end of an array JavaScript answers
  \<^verbatim>\<open>undefined\<close> (here \<open>None\<close>), and reading a property of
  \<^verbatim>\<open>undefined\<close> throws a \<^verbatim>\<open>TypeError\<close>.
\<close>

definition js_index :: "'a list \<Rightarrow> nat \<Rightarrow> 'a option" where
  "js_index xs i = (if i < length xs then Some (xs ! i) else None)"

datatype error = TypeError

text \<open>
  The program state that a call can reach: the lines written to the console so far, and,
  in the record's extension \<open>'w\<close>, everything else (the units, their items and the
  mods attached to them).
\<close>

record world =
  console :: "string list"

definition console_log :: "string \<Rightarrow> 'w world_scheme \<Rightarrow> 'w world_scheme" where
  "console_log line w = w\<lparr>console := console w @ [line]\<rparr>"

section \<open>ItemModType\<close>

definition LIFE_LEECH :: string where
  "LIFE_LEECH = ''life leech''"

definition THORNS :: string where
  "THORNS = ''thorns''"

definition REDUCE_DAMAGE :: string where
  "REDUCE_DAMAGE = ''reduce damage''"

definition MULTIPLE_PROJECTILES :: string where
  "MULTIPLE_PROJECTILES = ''multiple projectiles''"

text \<open>The values of the enumeration object \<^verbatim>\<open>game.ItemModType\<close>, in its order.\<close>

definition ItemModType :: "string list" where
  "ItemModType = [LIFE_LEECH, THORNS, REDUCE_DAMAGE, MULTIPLE_PROJECTILES]"

section \<open>The base class ItemMod\<close>

text \<open>
  The constructor body \<^verbatim>\<open>this.type = type\<close>, and
  \<^verbatim>\<open>new game.ItemMod(type)\<close>, which runs it on a fresh object.
\<close>

definition ItemMod :: "'n object \<Rightarrow> 'n jsval \<Rightarrow> 'n object" where
  "ItemMod this type = this\<lparr>properties := (properties this)(''type'' \<mapsto> type)\<rparr>"

definition new_ItemMod :: "'n jsval \<Rightarrow> 'n object" where
  "new_ItemMod type = ItemMod \<lparr>prototype = ItemMod_prototype, properties = Map.empty\<rparr> type"

text \<open>
  The hooks. \<open>'u\<close> is the type of units, which this file never looks into. Each
  hook returns its JavaScript result and the state it leaves behind; a function body
  without \<^verbatim>\<open>return\<close> yields \<^verbatim>\<open>undefined\<close>.

  Objects are passed as values. The only assignment to a field of an object in the
  script is the constructor's, which is why the constructor alone maps an object to an
  object: no method below assigns to a field of \<^verbatim>\<open>this\<close>, of a unit or of
  a record, so none returns an object it was given.
\<close>

definition beforeReceiveDamage ::
  "'n object \<Rightarrow> 'u \<Rightarrow> 'u \<Rightarrow> 'n jsval \<Rightarrow> 'w world_scheme \<Rightarrow> 'n jsval \<times> 'w world_scheme" where
  "beforeReceiveDamage this attacker target damageToBeDealt w = (damageToBeDealt, w)"

definition onDamageDealt ::
  "'n object \<Rightarrow> 'u \<Rightarrow> 'u \<Rightarrow> 'n jsval \<Rightarrow> 'w world_scheme \<Rightarrow> 'n jsval \<times> 'w world_scheme" where
  "onDamageDealt this attacker target damageDealt w = (JSUndefined, w)"

definition onDamageReceived ::
  "'n object \<Rightarrow> 'u \<Rightarrow> 'u \<Rightarrow> 'n jsval \<Rightarrow> 'w world_scheme \<Rightarrow> 'n jsval \<times> 'w world_scheme" where
  "onDamageReceived this attacker target damageDealt w = (JSUndefined, w)"

definition onBattleTurn ::
  "'n object \<Rightarrow> 'u \<Rightarrow> 'w world_scheme \<Rightarrow> bool \<times> 'w world_scheme" where
  "onBattleTurn this attacker w = (False, w)"

text \<open>\<^verbatim>\<open>copy\<close> returns \<^verbatim>\<open>null\<close>, here \<open>None\<close>.\<close>

definition copy ::
  "('n \<Rightarrow> string) \<Rightarrow> 'n object \<Rightarrow> 'w world_scheme \<Rightarrow> 'n object option \<times> 'w world_scheme" where
  "copy numberToString this w =
     (None,
      console_log (''copy - unimplemented for: '' @ ToString numberToString (Get this ''type'')) w)"

definition getDescription ::
  "('n \<Rightarrow> string) \<Rightarrow> 'n object \<Rightarrow> 'w world_scheme \<Rightarrow> string \<times> 'w world_scheme" where
  "getDescription numberToString this w =
     (''Unrecognized ItemMod type: '' @ ToString numberToString (Get this ''type''),
      console_log
        (''getDescription - unimplemented for: '' @ ToString numberToString (Get this ''type'')) w)"

section \<open>The four concrete mods\<close>

text \<open>
  The constructors \<^verbatim>\<open>game.LifeLeech\<close>, \<^verbatim>\<open>game.Thorns\<close>,
  \<^verbatim>\<open>game.ReduceDamage\<close> and \<^verbatim>\<open>game.MultipleProjectiles\<close> are
  called by \<^verbatim>\<open>rehydrateMods\<close> but are not among the source files. The proofs
  about \<^verbatim>\<open>rehydrateMods\<close> itself never look into them; only the round trip
  through storage and the consistency of tag and variant do.
\<close>

text \<open>
  Modelled from the spec: the constructor of the LIFE_LEECH variant is missing. By the
  spec's data model the variant is an ItemMod tagged LIFE_LEECH that holds its declared
  parameters chanceToLeech and leechPercentage as flat fields.
\<close>

definition LifeLeech :: "'n jsval \<Rightarrow> 'n jsval \<Rightarrow> 'n object" where
  "LifeLeech chanceToLeech leechPercentage =
     (let this = ItemMod \<lparr>prototype = LifeLeech_prototype, properties = Map.empty\<rparr>
                   (JSString LIFE_LEECH)
      in this\<lparr>properties := (properties this)
                (''chanceToLeech'' \<mapsto> chanceToLeech, ''leechPercentage'' \<mapsto> leechPercentage)\<rparr>)"

text \<open>
  Modelled from the spec: the constructor of the THORNS variant is missing. By the spec's
  data model the variant is an ItemMod tagged THORNS that holds its declared parameter
  thornsDamage as a flat field.
\<close>

definition Thorns :: "'n jsval \<Rightarrow> 'n object" where
  "Thorns thornsDamage =
     (let this = ItemMod \<lparr>prototype = Thorns_prototype, properties = Map.empty\<rparr>
                   (JSString THORNS)
      in this\<lparr>properties := (properties this)(''thornsDamage'' \<mapsto> thornsDamage)\<rparr>)"

text \<open>
  Modelled from the spec: the constructor of the REDUCE_DAMAGE variant is missing. By the
  spec's data model the variant is an ItemMod tagged REDUCE_DAMAGE that holds its declared
  parameter reduceDamageAmount as a flat field.
\<close>

definition ReduceDamage :: "'n jsval \<Rightarrow> 'n object" where
  "ReduceDamage reduceDamageAmount =
     (let this = ItemMod \<lparr>prototype = ReduceDamage_prototype, properties = Map.empty\<rparr>
                   (JSString REDUCE_DAMAGE)
      in this\<lparr>properties := (properties this)(''reduceDamageAmount'' \<mapsto> reduceDamageAmount)\<rparr>)"

text \<open>
  Modelled from the spec: the constructor of the MULTIPLE_PROJECTILES variant is missing.
  By the spec's data model the variant is an ItemMod tagged MULTIPLE_PROJECTILES that holds
  its declared parameter numberOfProjectiles as a flat field.
\<close>

definition MultipleProjectiles :: "'n jsval \<Rightarrow> 'n object" where
  "MultipleProjectiles numberOfProjectiles =
     (let this = ItemMod \<lparr>prototype = MultipleProjectiles_prototype, properties = Map.empty\<rparr>
                   (JSString MULTIPLE_PROJECTILES)
      in this\<lparr>properties := (properties this)(''numberOfProjectiles'' \<mapsto> numberOfProjectiles)\<rparr>)"

section \<open>rehydrateMods\<close>

text \<open>
  The \<^verbatim>\<open>for\<close> loop of \<^verbatim>\<open>rehydrateMods\<close>, with its variables
  \<open>i\<close> and \<open>finalMods\<close> as arguments. \<open>mods\<close> is an array of objects, as
  the function's comment declares it (\<^verbatim>\<open>Array:Object\<close>). The
  \<^verbatim>\<open>switch\<close> compares with \<^verbatim>\<open>===\<close>, so a case is taken only
  by the string itself. \<^verbatim>\<open>new\<close> always yields an object, and
  \<^verbatim>\<open>finalMod != null\<close> is the test for \<open>Some\<close>. The one place of the
  body that can throw is the read of \<^verbatim>\<open>modObject.type\<close>, should
  \<^verbatim>\<open>mods[i]\<close> be \<^verbatim>\<open>undefined\<close>.
\<close>

function rehydrateMods_loop ::
  "('n \<Rightarrow> string) \<Rightarrow> 'n object list \<Rightarrow> nat \<Rightarrow> 'n object list \<Rightarrow> 'w world_scheme
     \<Rightarrow> (error + 'n object list) \<times> 'w world_scheme" where
  "rehydrateMods_loop numberToString mods i finalMods w =
     (if i < length mods then
        (case js_index mods i of
           None \<Rightarrow> (Inl TypeError, w)
         | Some modObject \<Rightarrow>
             (let itemModType = Get modObject ''type'';
                  (finalMod, w') =
                    (if itemModType = JSString LIFE_LEECH then
                       (Some (LifeLeech (Get modObject ''chanceToLeech'')
                                        (Get modObject ''leechPercentage'')), w)
                     else if itemModType = JSString THORNS then
                       (Some (Thorns (Get modObject ''thornsDamage'')), w)
                     else if itemModType = JSString REDUCE_DAMAGE then
                       (Some (ReduceDamage (Get modObject ''reduceDamageAmount'')), w)
                     else if itemModType = JSString MULTIPLE_PROJECTILES then
                       (Some (MultipleProjectiles (Get modObject ''numberOfProjectiles'')), w)
                     else
                       (None,
                        console_log
                          (''Unrecognized ItemModType: '' @ ToString numberToString itemModType) w))
              in rehydrateMods_loop numberToString mods (i + 1)
                   (case finalMod of None \<Rightarrow> finalMods | Some m \<Rightarrow> finalMods @ [m]) w'))
      else (Inr finalMods, w))"
  by pat_completeness auto
termination
  by (relation "measure (\<lambda>(numberToString, mods, i, finalMods, w). length mods - i)") auto

definition rehydrateMods ::
  "('n \<Rightarrow> string) \<Rightarrow> 'n object list \<Rightarrow> 'w world_scheme
     \<Rightarrow> (error + 'n object list) \<times> 'w world_scheme" where
  "rehydrateMods numberToString mods w = rehydrateMods_loop numberToString mods 0 [] w"

section \<open>Saving a mod, and the turn-start dispatcher\<close>

text \<open>
  Modelled from the spec: the code that writes a mod to storage is not among the source
  files. By the spec's data model a persisted record is an untyped key/value mapping that
  holds the type field and the variant's parameters as flat fields: the mod's own
  properties, as a plain object without the mod's class.
\<close>

definition serialize :: "'n object \<Rightarrow> 'n object" where
  "serialize e = \<lparr>prototype = Object_prototype, properties = properties e\<rparr>"

text \<open>
  Modelled from the spec: the combat code that calls the hooks is not among the source
  files. By the spec, at the start of a turn the dispatcher offers
  \<^verbatim>\<open>onBattleTurn\<close> to the attacker's effects in attachment order and stops
  offering once one attempt reports \<^verbatim>\<open>true\<close>. \<open>hook\<close> is the dynamic call
  \<^verbatim>\<open>effect.onBattleTurn(attacker)\<close>, whatever the effect's class makes of it,
  acting on the state \<open>'s\<close>. The result lists the offers made, each with its outcome,
  in the order they were made.
\<close>

fun dispatchOnBattleTurn ::
  "('e \<Rightarrow> 'u \<Rightarrow> 's \<Rightarrow> bool \<times> 's) \<Rightarrow> 'e list \<Rightarrow> 'u \<Rightarrow> 's \<Rightarrow> ('e \<times> bool) list \<times> 's" where
  "dispatchOnBattleTurn hook [] attacker s = ([], s)"
| "dispatchOnBattleTurn hook (effect # effects) attacker s =
     (case hook effect attacker s of
        (wasModified, s') \<Rightarrow>
          if wasModified then ([(effect, True)], s')
          else (case dispatchOnBattleTurn hook effects attacker s' of
                  (offers, s'') \<Rightarrow> ((effect, False) # offers, s'')))"

section \<open>The specification's reading of rehydration\<close>

text \<open>
  The spec's table of variants, read as a function of one persisted record: the
  constructor that the record's type selects, applied to the variant's declared
  parameters, or nothing for a type outside the enumeration.
\<close>

definition spec_rehydrate_record :: "'n object \<Rightarrow> 'n object option" where
  "spec_rehydrate_record record =
     (if Get record ''type'' = JSString LIFE_LEECH then
        Some (LifeLeech (Get record ''chanceToLeech'') (Get record ''leechPercentage''))
      else if Get record ''type'' = JSString THORNS then
        Some (Thorns (Get record ''thornsDamage''))
      else if Get record ''type'' = JSString REDUCE_DAMAGE then
        Some (ReduceDamage (Get record ''reduceDamageAmount''))
      else if Get record ''type'' = JSString MULTIPLE_PROJECTILES then
        Some (MultipleProjectiles (Get record ''numberOfProjectiles''))
      else None)"

text \<open>A known type is one of the enumeration's strings.\<close>

definition knownType :: "'n jsval \<Rightarrow> bool" where
  "knownType t = (t \<in> set (map JSString ItemModType))"

text \<open>The diagnostic that names a record's unrecognised type.\<close>

definition unrecognizedLine :: "('n \<Rightarrow> string) \<Rightarrow> 'n object \<Rightarrow> string" where
  "unrecognizedLine numberToString record =
     ''Unrecognized ItemModType: '' @ ToString numberToString (Get record ''type'')"


section \<open>The script on a heap of objects, for any argument\<close>

text \<open>
  The definitions above read the script on the inputs its comments declare: flat
  records, and instances as values. The definitions of this section read the same
  statements on JavaScript's own terms, so that a write to an existing object and a
  thrown \<^verbatim>\<open>TypeError\<close> can be told from their absence.

  A value is a primitive, a symbol or a reference to an object on the heap. An object
  comes into being by \<^verbatim>\<open>new\<close>, at the next free reference, and changes only
  by an assignment to one of its properties. What the conversion of an object to a
  string yields, a text or a \<^verbatim>\<open>TypeError\<close>, is the outcome of the object's own
  \<^verbatim>\<open>toString\<close> and \<^verbatim>\<open>valueOf\<close>; it is kept as a field of the
  object. An ordinary object yields \<^verbatim>\<open>[object Object]\<close>; an object made by
  \<^verbatim>\<open>Object.create(null)\<close> throws.

  Two things are left out. Properties are data properties: an object whose
  \<^verbatim>\<open>type\<close> is a getter, or a proxy, is not a value of this model. And a
  conversion to a string has an outcome but no effect: a \<^verbatim>\<open>toString\<close> that
  writes to other objects is not one of this model. Both would run code that is not the
  script's.
\<close>

datatype 'n js_value = Primitive "'n jsval" | JSSymbol | Reference nat

record 'n js_object =
  object_prototype :: prototype
  object_properties :: "string \<rightharpoonup> 'n js_value"
  object_toString :: "error + string"

text \<open>
  The state: the console, the heap and the number of references in use (the references
  below \<open>allocated\<close> denote the objects that exist).
\<close>

record 'n js_world = world +
  heap :: "nat \<Rightarrow> 'n js_object"
  allocated :: nat

text \<open>
  Reading \<^verbatim>\<open>v.p\<close> of a value that is neither \<^verbatim>\<open>undefined\<close> nor
  \<^verbatim>\<open>null\<close>, for the six names the script reads (\<^verbatim>\<open>type\<close> and the
  five parameter names): an object answers with its own data property, and a boolean, a
  number, a string or a symbol has no property of these names.
\<close>

fun js_read :: "('n, 'z) js_world_scheme \<Rightarrow> 'n js_value \<Rightarrow> string \<Rightarrow> 'n js_value" where
  "js_read w (Reference r) p =
     (case object_properties (heap w r) p of None \<Rightarrow> Primitive JSUndefined | Some v \<Rightarrow> v)"
| "js_read w v p = Primitive JSUndefined"





















section \<open>Notions for stating what happens on the heap\<close>



text \<open>A known type is one of the enumeration's strings.\<close>

definition js_known :: "'n js_value \<Rightarrow> bool" where
  "js_known t = (t \<in> set (map (\<lambda>tag. Primitive (JSString tag)) ItemModType))"










section \<open>Example records\<close>

text \<open>
  Records as they come out of storage, with numbers read as reals: the records of the spec's
  scenarios.
\<close>

definition bogusRecord :: "real object" where
  "bogusRecord = \<lparr>prototype = Object_prototype, properties = [''type'' \<mapsto> JSString ''bogus'']\<rparr>"

definition thornsRecord :: "real object" where
  "thornsRecord =
     \<lparr>prototype = Object_prototype,
      properties = [''type'' \<mapsto> JSString ''thorns'', ''thornsDamage'' \<mapsto> JSNumber 5]\<rparr>"

definition lifeLeechRecord :: "real object" where
  "lifeLeechRecord =
     \<lparr>prototype = Object_prototype,
      properties = [''type'' \<mapsto> JSString ''life leech'', ''chanceToLeech'' \<mapsto> JSNumber 0.3,
                    ''leechPercentage'' \<mapsto> JSNumber 0.5]\<rparr>"

definition unknownRecord :: "real object" where
  "unknownRecord = \<lparr>prototype = Object_prototype, properties = [''type'' \<mapsto> JSString ''unknown'']\<rparr>"

text \<open>
  A hook that overrides the default, for illustration only: it halves a numeric damage
  when the effect's type is the made-up tag \<^verbatim>\<open>halve\<close>, and is the base
  class's hook otherwise. It is not the arithmetic of any of the game's variants.
\<close>

definition exampleHook ::
  "real object \<Rightarrow> unit \<Rightarrow> unit \<Rightarrow> real jsval \<Rightarrow> world \<Rightarrow> real jsval \<times> world" where
  "exampleHook effect =
     (if Get effect ''type'' = JSString ''halve'' then
        (\<lambda>attacker target damage w.
           (case damage of JSNumber d \<Rightarrow> JSNumber (d / 2) | _ \<Rightarrow> damage, w))
      else beforeReceiveDamage effect)"



section \<open>What the loop of rehydrateMods computes\<close>

declare rehydrateMods_loop.simps [simp del]

lemma knownType_iff:
  "knownType t = (t = JSString LIFE_LEECH \<or> t = JSString THORNS \<or> t = JSString REDUCE_DAMAGE
      \<or> t = JSString MULTIPLE_PROJECTILES)"
  by (auto simp: knownType_def ItemModType_def)

lemma spec_rehydrate_record_None:
  "(spec_rehydrate_record m = None) = (\<not> knownType (Get m ''type''))"
  by (simp add: spec_rehydrate_record_def knownType_iff)

lemma rehydrateMods_loop_step:
  assumes "i < length mods"
  shows "rehydrateMods_loop numberToString mods i finalMods w =
     rehydrateMods_loop numberToString mods (Suc i)
       (case spec_rehydrate_record (mods ! i) of
          None \<Rightarrow> finalMods | Some m \<Rightarrow> finalMods @ [m])
       (if knownType (Get (mods ! i) ''type'') then w
        else console_log (unrecognizedLine numberToString (mods ! i)) w)"
  using assms
  by (subst rehydrateMods_loop.simps)
     (simp add: js_index_def spec_rehydrate_record_def knownType_iff unrecognizedLine_def)

lemma rehydrateMods_loop_done:
  assumes "\<not> i < length mods"
  shows "rehydrateMods_loop numberToString mods i finalMods w = (Inr finalMods, w)"
  using assms by (subst rehydrateMods_loop.simps) simp

lemma rehydrateMods_loop_eq:
  "rehydrateMods_loop numberToString mods i finalMods w =
     (Inr (finalMods @ List.map_filter spec_rehydrate_record (drop i mods)),
      w\<lparr>console := console w @
            map (unrecognizedLine numberToString)
              (filter (\<lambda>m. \<not> knownType (Get m ''type'')) (drop i mods))\<rparr>)"
proof (induction "length mods - i" arbitrary: i finalMods w)
  case 0
  then have "\<not> i < length mods" by simp
  then show ?case
    by (simp add: rehydrateMods_loop_done List.map_filter_simps)
next
  case (Suc k)
  then have lt: "i < length mods" and k: "k = length mods - Suc i"
    by simp_all
  have dr: "drop i mods = mods ! i # drop (Suc i) mods"
    using lt by (simp add: Cons_nth_drop_Suc)
  show ?case
  proof (cases "knownType (Get (mods ! i) ''type'')")
    case True
    then obtain e where e: "spec_rehydrate_record (mods ! i) = Some e"
      using spec_rehydrate_record_None [of "mods ! i"] by auto
    show ?thesis
      by (simp add: rehydrateMods_loop_step [OF lt] Suc.hyps(1) [OF k] dr True e
            List.map_filter_simps)
  next
    case False
    then have n: "spec_rehydrate_record (mods ! i) = None"
      by (simp add: spec_rehydrate_record_None)
    show ?thesis
      by (simp add: rehydrateMods_loop_step [OF lt] Suc.hyps(1) [OF k] dr False n
            List.map_filter_simps console_log_def)
  qed
qed

lemma rehydrateMods_eq:
  "rehydrateMods numberToString mods w =
     (Inr (List.map_filter spec_rehydrate_record mods),
      w\<lparr>console := console w @
            map (unrecognizedLine numberToString)
              (filter (\<lambda>m. \<not> knownType (Get m ''type'')) mods)\<rparr>)"
  by (simp add: rehydrateMods_def rehydrateMods_loop_eq)

lemma map_filter_known:
  "List.map_filter spec_rehydrate_record mods =
     map (\<lambda>m. the (spec_rehydrate_record m)) (filter (\<lambda>m. knownType (Get m ''type'')) mods)"
proof (induction mods)
  case Nil
  show ?case by simp
next
  case (Cons m mods)
  show ?case
  proof (cases "spec_rehydrate_record m")
    case None
    then have "\<not> knownType (Get m ''type'')"
      by (simp add: spec_rehydrate_record_None [symmetric])
    with None Cons.IH show ?thesis by simp
  next
    case (Some e)
    then have "knownType (Get m ''type'')"
      using spec_rehydrate_record_None [of m] by simp
    with Some Cons.IH show ?thesis by simp
  qed
qed

lemma length_filter_split:
  "length (filter P xs) + length (filter (\<lambda>x. \<not> P x) xs) = length xs"
  by (induction xs) auto

lemma Get_examples:
  "Get bogusRecord ''type'' = JSString ''bogus''"
  "Get unknownRecord ''type'' = JSString ''unknown''"
  "Get thornsRecord ''type'' = JSString ''thorns''"
  "Get thornsRecord ''thornsDamage'' = JSNumber 5"
  "Get lifeLeechRecord ''type'' = JSString ''life leech''"
  "Get lifeLeechRecord ''chanceToLeech'' = JSNumber 0.3"
  "Get lifeLeechRecord ''leechPercentage'' = JSNumber 0.5"
  by (simp_all add: Get_def bogusRecord_def unknownRecord_def thornsRecord_def lifeLeechRecord_def)

lemma knownType_examples:
  "\<not> knownType (JSString ''bogus'' :: real jsval)"
  "\<not> knownType (JSString ''unknown'' :: real jsval)"
  "knownType (JSString ''thorns'' :: real jsval)"
  "knownType (JSString ''life leech'' :: real jsval)"
  by (simp_all add: knownType_iff LIFE_LEECH_def THORNS_def REDUCE_DAMAGE_def
        MULTIPLE_PROJECTILES_def)

lemma tags_neq:
  "LIFE_LEECH \<noteq> THORNS" "LIFE_LEECH \<noteq> REDUCE_DAMAGE" "LIFE_LEECH \<noteq> MULTIPLE_PROJECTILES"
  "THORNS \<noteq> LIFE_LEECH" "THORNS \<noteq> REDUCE_DAMAGE" "THORNS \<noteq> MULTIPLE_PROJECTILES"
  "REDUCE_DAMAGE \<noteq> LIFE_LEECH" "REDUCE_DAMAGE \<noteq> THORNS" "REDUCE_DAMAGE \<noteq> MULTIPLE_PROJECTILES"
  "MULTIPLE_PROJECTILES \<noteq> LIFE_LEECH" "MULTIPLE_PROJECTILES \<noteq> THORNS"
  "MULTIPLE_PROJECTILES \<noteq> REDUCE_DAMAGE"
  by (simp_all add: LIFE_LEECH_def THORNS_def REDUCE_DAMAGE_def MULTIPLE_PROJECTILES_def)

lemma spec_rehydrate_record_tag:
  "Get m ''type'' = JSString LIFE_LEECH \<Longrightarrow>
     spec_rehydrate_record m =
       Some (LifeLeech (Get m ''chanceToLeech'') (Get m ''leechPercentage''))"
  "Get m ''type'' = JSString THORNS \<Longrightarrow>
     spec_rehydrate_record m = Some (Thorns (Get m ''thornsDamage''))"
  "Get m ''type'' = JSString REDUCE_DAMAGE \<Longrightarrow>
     spec_rehydrate_record m = Some (ReduceDamage (Get m ''reduceDamageAmount''))"
  "Get m ''type'' = JSString MULTIPLE_PROJECTILES \<Longrightarrow>
     spec_rehydrate_record m = Some (MultipleProjectiles (Get m ''numberOfProjectiles''))"
  by (simp_all add: spec_rehydrate_record_def tags_neq)

lemma rehydrateMods_single:
  assumes "spec_rehydrate_record m = Some e"
  shows "rehydrateMods numberToString [m] w = (Inr [e], w)"
proof -
  have "knownType (Get m ''type'')"
    using assms spec_rehydrate_record_None [of m] by simp
  with assms show ?thesis
    by (simp add: rehydrateMods_eq)
qed

lemma Get_serialize: "Get (serialize e) p = Get e p"
  by (simp add: Get_def serialize_def)

lemma Get_constructed:
  "Get (LifeLeech chanceToLeech leechPercentage) ''type'' = JSString LIFE_LEECH"
  "Get (LifeLeech chanceToLeech leechPercentage) ''chanceToLeech'' = chanceToLeech"
  "Get (LifeLeech chanceToLeech leechPercentage) ''leechPercentage'' = leechPercentage"
  "Get (Thorns thornsDamage) ''type'' = JSString THORNS"
  "Get (Thorns thornsDamage) ''thornsDamage'' = thornsDamage"
  "Get (ReduceDamage reduceDamageAmount) ''type'' = JSString REDUCE_DAMAGE"
  "Get (ReduceDamage reduceDamageAmount) ''reduceDamageAmount'' = reduceDamageAmount"
  "Get (MultipleProjectiles numberOfProjectiles) ''type'' = JSString MULTIPLE_PROJECTILES"
  "Get (MultipleProjectiles numberOfProjectiles) ''numberOfProjectiles'' = numberOfProjectiles"
  by (simp_all add: Get_def LifeLeech_def Thorns_def ReduceDamage_def MultipleProjectiles_def
        ItemMod_def)

lemma Get_ItemMod: "Get (ItemMod this type) ''type'' = type"
  by (simp add: Get_def ItemMod_def)

lemma Get_new_ItemMod: "Get (new_ItemMod type) ''type'' = type"
  by (simp add: new_ItemMod_def Get_ItemMod)

section \<open>The dispatcher and the default hooks\<close>

lemma dispatchOnBattleTurn_offers:
  "dispatchOnBattleTurn hook effects attacker s = (offers, s') \<Longrightarrow>
     map fst offers = take (length offers) effects
     \<and> (\<forall>i. i < length offers \<and> snd (offers ! i) \<longrightarrow> Suc i = length offers)
     \<and> (length offers < length effects \<longrightarrow> offers \<noteq> [] \<and> snd (last offers))"
proof (induction effects arbitrary: s offers s')
  case Nil
  then show ?case by simp
next
  case (Cons e es)
  obtain m s1 where h: "hook e attacker s = (m, s1)"
    by (cases "hook e attacker s")
  show ?case
  proof (cases m)
    case True
    with h Cons.prems have "offers = [(e, True)]"
      by simp
    then show ?thesis by simp
  next
    case False
    obtain os s2 where r: "dispatchOnBattleTurn hook es attacker s1 = (os, s2)"
      by (cases "dispatchOnBattleTurn hook es attacker s1")
    with h False Cons.prems have o: "offers = (e, False) # os"
      by simp
    from Cons.IH [OF r] have ih1: "map fst os = take (length os) es"
      and ih2: "\<forall>i. i < length os \<and> snd (os ! i) \<longrightarrow> Suc i = length os"
      and ih3: "length os < length es \<longrightarrow> os \<noteq> [] \<and> snd (last os)"
      by simp_all
    have "\<forall>i. i < length offers \<and> snd (offers ! i) \<longrightarrow> Suc i = length offers"
    proof (intro allI impI)
      fix i assume a: "i < length offers \<and> snd (offers ! i)"
      then obtain j where "i = Suc j"
        using o by (cases i) auto
      with a o ih2 show "Suc i = length offers" by auto
    qed
    with o ih1 ih3 show ?thesis by auto
  qed
qed

lemma true_offers_last:
  "\<forall>i. i < length (offers :: ('e \<times> bool) list) \<and> snd (offers ! i) \<longrightarrow> Suc i = length offers
     \<Longrightarrow> length (filter snd offers) \<le> 1"
proof (induction offers)
  case Nil
  show ?case by simp
next
  case (Cons x xs)
  have tl: "\<forall>i. i < length xs \<and> snd (xs ! i) \<longrightarrow> Suc i = length xs"
  proof (intro allI impI)
    fix i assume "i < length xs \<and> snd (xs ! i)"
    then have "Suc i < length (x # xs) \<and> snd ((x # xs) ! Suc i)" by simp
    with Cons.prems have "Suc (Suc i) = length (x # xs)" by blast
    then show "Suc i = length xs" by simp
  qed
  show ?case
  proof (cases "snd x")
    case False
    with Cons.IH [OF tl] show ?thesis by simp
  next
    case True
    with Cons.prems have "Suc 0 = length (x # xs)"
      by (metis length_greater_0_conv list.distinct(1) nth_Cons_0)
    then have "xs = []" by simp
    with True show ?thesis by simp
  qed
qed

lemma fold_beforeReceiveDamage:
  "fold (\<lambda>effect (damage, w). beforeReceiveDamage effect attacker target damage w) effects
     (damageToBeDealt, w) = (damageToBeDealt, w)"
  by (induction effects) (simp_all add: beforeReceiveDamage_def)

lemma fold_skip_default:
  assumes "hook this = beforeReceiveDamage this"
  shows "fold (\<lambda>effect (damage, w). hook effect attacker target damage w)
           (before @ this # after) (damageToBeDealt, w) =
         fold (\<lambda>effect (damage, w). hook effect attacker target damage w)
           (before @ after) (damageToBeDealt, w)"
proof -
  obtain d1 w1 where "fold (\<lambda>effect (damage, w). hook effect attacker target damage w)
      before (damageToBeDealt, w) = (d1, w1)"
    by (cases "fold (\<lambda>effect (damage, w). hook effect attacker target damage w)
      before (damageToBeDealt, w)")
  with assms show ?thesis
    by (simp add: beforeReceiveDamage_def)
qed

lemma dispatch_default_onBattleTurn:
  "dispatchOnBattleTurn onBattleTurn effects attacker w = (map (\<lambda>e. (e, False)) effects, w)"
  by (induction effects) (simp_all add: onBattleTurn_def)

section \<open>What the script does on the heap\<close>


lemma js_known_iff:
  "js_known t = (t = Primitive (JSString LIFE_LEECH) \<or> t = Primitive (JSString THORNS)
     \<or> t = Primitive (JSString REDUCE_DAMAGE) \<or> t = Primitive (JSString MULTIPLE_PROJECTILES))"
  by (auto simp: js_known_def ItemModType_def)





































lemma js_read_same_heap:
  "heap w' = heap w \<Longrightarrow> js_read w' x p = js_read w x p"
  by (cases x) simp_all

section \<open>The heap and the first reading agree on flat records\<close>


lemma js_known_Primitive: "js_known (Primitive t) = knownType t"
  by (auto simp: js_known_iff knownType_iff)








section \<open>Records of an unknown type\<close>

text \<open>
  Claim C1. For every sequence of persisted records, \<^verbatim>\<open>rehydrateMods\<close> returns
  normally with one effect for each record whose type is a known tag, in the order of
  those records; a record of any other type contributes no element, only one diagnostic
  line on the console, and the records after it are still processed. So the result and
  the unknown-type records together count as many as the input, and with exactly one
  unknown-type record the result is one element shorter than the input.
\<close>

theorem rehydrateMods_omits_unknown_types:
  "\<exists>finalMods.
     rehydrateMods numberToString mods w =
       (Inr finalMods,
        w\<lparr>console := console w @
              map (unrecognizedLine numberToString)
                (filter (\<lambda>m. \<not> knownType (Get m ''type'')) mods)\<rparr>)
     \<and> finalMods = List.map_filter spec_rehydrate_record mods
     \<and> finalMods =
         map (\<lambda>m. the (spec_rehydrate_record m)) (filter (\<lambda>m. knownType (Get m ''type'')) mods)
     \<and> (\<forall>m. knownType (Get m ''type'') = (\<exists>e. spec_rehydrate_record m = Some e))
     \<and> length finalMods = length (filter (\<lambda>m. knownType (Get m ''type'')) mods)
     \<and> length finalMods + length (filter (\<lambda>m. \<not> knownType (Get m ''type'')) mods) = length mods
     \<and> (length (filter (\<lambda>m. \<not> knownType (Get m ''type'')) mods) = 1
          \<longrightarrow> Suc (length finalMods) = length mods)"
proof -
  let ?known = "filter (\<lambda>m. knownType (Get m ''type'')) mods"
  let ?unknown = "filter (\<lambda>m. \<not> knownType (Get m ''type'')) mods"
  let ?finalMods = "map (\<lambda>m. the (spec_rehydrate_record m)) ?known"
  have run: "rehydrateMods numberToString mods w =
      (Inr ?finalMods, w\<lparr>console := console w @ map (unrecognizedLine numberToString) ?unknown\<rparr>)"
    by (simp add: rehydrateMods_eq map_filter_known)
  have len: "length ?finalMods + length ?unknown = length mods"
    using length_filter_split [of "\<lambda>m. knownType (Get m ''type'')" mods] by simp
  have some: "\<forall>m. knownType (Get m ''type'') = (\<exists>e. spec_rehydrate_record m = Some e)"
    using spec_rehydrate_record_None by (metis not_Some_eq)
  from run len some show ?thesis
    by (simp add: map_filter_known)
qed

theorem rehydrateMods_omits_unknown_types_witness:
  "length (filter (\<lambda>m. \<not> knownType (Get m ''type'')) [thornsRecord, bogusRecord, lifeLeechRecord]) = 1
   \<and> (\<forall>numberToString.
        rehydrateMods numberToString [thornsRecord, bogusRecord, lifeLeechRecord] \<lparr>console = []\<rparr> =
          (Inr [Thorns (JSNumber 5), LifeLeech (JSNumber 0.3) (JSNumber 0.5)],
           \<lparr>console = [''Unrecognized ItemModType: bogus'']\<rparr>))
   \<and> Suc (length [Thorns (JSNumber 5), LifeLeech (JSNumber 0.3) (JSNumber (0.5::real))]) =
       length [thornsRecord, bogusRecord, lifeLeechRecord]"
proof -
  let ?mods = "[thornsRecord, bogusRecord, lifeLeechRecord]"
  have unknown: "filter (\<lambda>m. \<not> knownType (Get m ''type'')) ?mods = [bogusRecord]"
    by (simp add: Get_examples knownType_examples)
  have made: "List.map_filter spec_rehydrate_record ?mods =
      [Thorns (JSNumber 5), LifeLeech (JSNumber 0.3) (JSNumber 0.5)]"
    by (simp add: spec_rehydrate_record_def Get_examples LIFE_LEECH_def THORNS_def
          REDUCE_DAMAGE_def MULTIPLE_PROJECTILES_def)
  have line: "unrecognizedLine numberToString bogusRecord = ''Unrecognized ItemModType: bogus''"
    for numberToString :: "real \<Rightarrow> string"
    by (simp add: unrecognizedLine_def Get_examples)
  have "rehydrateMods numberToString ?mods \<lparr>console = []\<rparr> =
          (Inr [Thorns (JSNumber 5), LifeLeech (JSNumber 0.3) (JSNumber 0.5)],
           \<lparr>console = [''Unrecognized ItemModType: bogus'']\<rparr>)"
    for numberToString :: "real \<Rightarrow> string"
  proof -
    from rehydrateMods_omits_unknown_types [of numberToString ?mods "\<lparr>console = []\<rparr>"]
    obtain finalMods where
      run: "rehydrateMods numberToString ?mods \<lparr>console = []\<rparr> =
              (Inr finalMods,
               \<lparr>console = []\<rparr>\<lparr>console := console \<lparr>console = []\<rparr> @
                  map (unrecognizedLine numberToString)
                    (filter (\<lambda>m. \<not> knownType (Get m ''type'')) ?mods)\<rparr>)"
      and fm: "finalMods = List.map_filter spec_rehydrate_record ?mods"
      by blast
    from run fm show ?thesis
      by (simp only: unknown made line list.map world.simps append_Nil)
  qed
  with unknown show ?thesis by simp
qed

section \<open>Dispatch on the type tag\<close>

text \<open>
  Claim C2. \<^verbatim>\<open>rehydrateMods\<close> turns each record of a known type into the call
  of the matching constructor on exactly the variant's declared fields of that record:
  LIFE_LEECH gives LifeLeech(chanceToLeech, leechPercentage), THORNS gives
  Thorns(thornsDamage), REDUCE_DAMAGE gives ReduceDamage(reduceDamageAmount) and
  MULTIPLE_PROJECTILES gives MultipleProjectiles(numberOfProjectiles). The result lists
  these in the order of the input. In particular the records
  \<^verbatim>\<open>{type:"thorns", thornsDamage:5}\<close>,
  \<^verbatim>\<open>{type:"life leech", chanceToLeech:0.3, leechPercentage:0.5}\<close>,
  \<^verbatim>\<open>{type:"unknown"}\<close> yield exactly Thorns(5) and LifeLeech(0.3, 0.5), in that
  order.
\<close>

theorem rehydrateMods_dispatches_on_type:
  "fst (rehydrateMods numberToString mods w) = Inr (List.map_filter spec_rehydrate_record mods)
   \<and> (Get m ''type'' = JSString LIFE_LEECH \<longrightarrow>
        rehydrateMods numberToString [m] w =
          (Inr [LifeLeech (Get m ''chanceToLeech'') (Get m ''leechPercentage'')], w))
   \<and> (Get m ''type'' = JSString THORNS \<longrightarrow>
        rehydrateMods numberToString [m] w = (Inr [Thorns (Get m ''thornsDamage'')], w))
   \<and> (Get m ''type'' = JSString REDUCE_DAMAGE \<longrightarrow>
        rehydrateMods numberToString [m] w =
          (Inr [ReduceDamage (Get m ''reduceDamageAmount'')], w))
   \<and> (Get m ''type'' = JSString MULTIPLE_PROJECTILES \<longrightarrow>
        rehydrateMods numberToString [m] w =
          (Inr [MultipleProjectiles (Get m ''numberOfProjectiles'')], w))
   \<and> rehydrateMods numberToString' [thornsRecord, lifeLeechRecord, unknownRecord] w' =
       (Inr [Thorns (JSNumber 5), LifeLeech (JSNumber 0.3) (JSNumber 0.5)],
        w'\<lparr>console := console w' @ [''Unrecognized ItemModType: unknown'']\<rparr>)"
proof -
  have a: "fst (rehydrateMods numberToString mods w) =
      Inr (List.map_filter spec_rehydrate_record mods)"
    by (simp add: rehydrateMods_eq)
  have f: "rehydrateMods numberToString' [thornsRecord, lifeLeechRecord, unknownRecord] w' =
       (Inr [Thorns (JSNumber 5), LifeLeech (JSNumber 0.3) (JSNumber 0.5)],
        w'\<lparr>console := console w' @ [''Unrecognized ItemModType: unknown'']\<rparr>)"
    by (simp add: rehydrateMods_eq spec_rehydrate_record_def Get_examples knownType_examples
          unrecognizedLine_def LIFE_LEECH_def THORNS_def REDUCE_DAMAGE_def
          MULTIPLE_PROJECTILES_def)
  from a f show ?thesis
    by (simp add: rehydrateMods_single spec_rehydrate_record_tag)
qed

theorem rehydrateMods_dispatches_on_type_witness:
  "Get thornsRecord ''type'' = JSString THORNS
   \<and> Get lifeLeechRecord ''type'' = JSString LIFE_LEECH
   \<and> (\<forall>numberToString.
        rehydrateMods numberToString [thornsRecord] \<lparr>console = []\<rparr> =
          (Inr [Thorns (JSNumber 5)], \<lparr>console = []\<rparr>)
        \<and> rehydrateMods numberToString [lifeLeechRecord] \<lparr>console = []\<rparr> =
          (Inr [LifeLeech (JSNumber 0.3) (JSNumber 0.5)], \<lparr>console = []\<rparr>))"
proof -
  have t: "Get thornsRecord ''type'' = JSString THORNS"
    and l: "Get lifeLeechRecord ''type'' = JSString LIFE_LEECH"
    by (simp_all add: Get_examples THORNS_def LIFE_LEECH_def)
  have "rehydrateMods numberToString [thornsRecord] \<lparr>console = []\<rparr> =
          (Inr [Thorns (JSNumber 5)], \<lparr>console = []\<rparr>)" for numberToString :: "real \<Rightarrow> string"
    using t rehydrateMods_dispatches_on_type
      [of numberToString "[]" "\<lparr>console = []\<rparr>" thornsRecord numberToString "\<lparr>console = []\<rparr>"]
    by (simp add: Get_examples)
  moreover have "rehydrateMods numberToString [lifeLeechRecord] \<lparr>console = []\<rparr> =
          (Inr [LifeLeech (JSNumber 0.3) (JSNumber 0.5)], \<lparr>console = []\<rparr>)"
      for numberToString :: "real \<Rightarrow> string"
    using l rehydrateMods_dispatches_on_type
      [of numberToString "[]" "\<lparr>console = []\<rparr>" lifeLeechRecord numberToString "\<lparr>console = []\<rparr>"]
    by (simp add: Get_examples)
  ultimately show ?thesis using t l by simp
qed

section \<open>The round trip through storage\<close>

text \<open>
  Claim C3. For each of the four known variants and all parameter values, saving a live
  effect as a persisted record and rehydrating that one record yields a one-element
  sequence whose element is the effect again: the same variant, the same type tag and the
  same parameters. Nothing is written to the console.
\<close>

theorem rehydrateMods_serialize_round_trip:
  "rehydrateMods numberToString [serialize (LifeLeech chanceToLeech leechPercentage)] w =
     (Inr [LifeLeech chanceToLeech leechPercentage], w)
   \<and> rehydrateMods numberToString [serialize (Thorns thornsDamage)] w =
     (Inr [Thorns thornsDamage], w)
   \<and> rehydrateMods numberToString [serialize (ReduceDamage reduceDamageAmount)] w =
     (Inr [ReduceDamage reduceDamageAmount], w)
   \<and> rehydrateMods numberToString [serialize (MultipleProjectiles numberOfProjectiles)] w =
     (Inr [MultipleProjectiles numberOfProjectiles], w)"
  by (simp add: rehydrateMods_single spec_rehydrate_record_tag Get_serialize Get_constructed)

section \<open>At most one attack modification per turn\<close>

text \<open>
  Claim C4. In a turn-start dispatch the effects are offered \<^verbatim>\<open>onBattleTurn\<close>
  in attachment order (the offers made are an initial segment of the attached effects), at
  most one offer reports true, an offer that reports true is the last one made, and
  effects are left out only after such an offer. In particular, when each of three
  effects A, B, C would report true, only A is invoked.
\<close>

theorem dispatchOnBattleTurn_at_most_one:
  "dispatchOnBattleTurn hook effects attacker s = (offers, s') \<Longrightarrow>
     map fst offers = take (length offers) effects
     \<and> length (filter snd offers) \<le> 1
     \<and> (\<forall>i. i < length offers \<and> snd (offers ! i) \<longrightarrow> Suc i = length offers)
     \<and> (length offers < length effects \<longrightarrow> offers \<noteq> [] \<and> snd (last offers))
     \<and> ((\<forall>e \<in> {A, B, C}. \<forall>t. fst (hook e attacker t)) \<longrightarrow>
          fst (dispatchOnBattleTurn hook [A, B, C] attacker s) = [(A, True)])"
proof -
  assume run: "dispatchOnBattleTurn hook effects attacker s = (offers, s')"
  note o = dispatchOnBattleTurn_offers [OF run]
  have abc: "(\<forall>e \<in> {A, B, C}. \<forall>t. fst (hook e attacker t)) \<longrightarrow>
          fst (dispatchOnBattleTurn hook [A, B, C] attacker s) = [(A, True)]"
  proof
    assume "\<forall>e \<in> {A, B, C}. \<forall>t. fst (hook e attacker t)"
    then have "fst (hook A attacker s)" by simp
    then show "fst (dispatchOnBattleTurn hook [A, B, C] attacker s) = [(A, True)]"
      by (cases "hook A attacker s") simp
  qed
  from o true_offers_last [of offers] abc show ?thesis by blast
qed

theorem dispatchOnBattleTurn_at_most_one_witness:
  "dispatchOnBattleTurn (\<lambda>e u (t::nat). (True, Suc t)) [''A'', ''B'', ''C''] () 0 =
     ([(''A'', True)], 1)
   \<and> (\<forall>t. fst ((\<lambda>e u (t::nat). (True, Suc t)) ''A'' () t))
   \<and> (\<forall>t. fst ((\<lambda>e u (t::nat). (True, Suc t)) ''B'' () t))
   \<and> (\<forall>t. fst ((\<lambda>e u (t::nat). (True, Suc t)) ''C'' () t))
   \<and> map fst [(''A'', True)] = take (length [(''A'', True)]) [''A'', ''B'', ''C'']
   \<and> length (filter snd [(''A'', True)]) \<le> 1
   \<and> length [(''A'', True)] < length [''A'', ''B'', ''C'']
   \<and> snd (last [(''A'', True)])"
proof -
  have run: "dispatchOnBattleTurn (\<lambda>e u (t::nat). (True, Suc t)) [''A'', ''B'', ''C''] () 0 =
      ([(''A'', True)], 1)"
    by simp
  have all: "\<forall>e \<in> {''A'', ''B'', ''C''}. \<forall>t. fst ((\<lambda>e u (t::nat). (True, Suc t)) e () t)"
    by simp
  from dispatchOnBattleTurn_at_most_one [OF run, of "''A''" "''B''" "''C''"] run all
  show ?thesis by simp
qed

section \<open>The defaults of copy and getDescription\<close>

text \<open>
  Claim C5. The base class's \<^verbatim>\<open>copy\<close>, on whatever instance it is called,
  writes one diagnostic line that names the instance's type to the console and returns
  \<^verbatim>\<open>null\<close>; it has no other outcome (it does not throw), so the absent
  result tells the caller that the variant has no copy.
\<close>

theorem copy_unimplemented_returns_null:
  "copy numberToString this w =
     (None,
      w\<lparr>console := console w @
            [''copy - unimplemented for: '' @ ToString numberToString (Get this ''type'')]\<rparr>)
   \<and> fst (copy numberToString (Thorns thornsDamage) w) = None
   \<and> copy numberToString (new_ItemMod (JSString ''poison'')) w =
       (None, w\<lparr>console := console w @ [''copy - unimplemented for: poison'']\<rparr>)"
  by (simp add: copy_def console_log_def Get_new_ItemMod)

text \<open>
  Claim C6. The base class's \<^verbatim>\<open>getDescription\<close>, on whatever instance it is
  called, returns the fallback text \<^verbatim>\<open>Unrecognized ItemMod type: \<close> followed
  by the instance's type tag, and writes one diagnostic line to the console; it has no
  other outcome (it does not throw).
\<close>

theorem getDescription_unimplemented_fallback:
  "getDescription numberToString this w =
     (''Unrecognized ItemMod type: '' @ ToString numberToString (Get this ''type''),
      w\<lparr>console := console w @
            [''getDescription - unimplemented for: '' @
               ToString numberToString (Get this ''type'')]\<rparr>)
   \<and> fst (getDescription numberToString (ItemMod this (JSString tag)) w) =
       ''Unrecognized ItemMod type: '' @ tag
   \<and> getDescription numberToString (new_ItemMod (JSString ''poison'')) w =
       (''Unrecognized ItemMod type: poison'',
        w\<lparr>console := console w @ [''getDescription - unimplemented for: poison'']\<rparr>)
   \<and> fst (getDescription numberToString (new_ItemMod JSUndefined) w) =
       ''Unrecognized ItemMod type: undefined''"
  by (simp add: getDescription_def console_log_def Get_new_ItemMod Get_ItemMod)

section \<open>The type tag\<close>




section \<open>Exceptions\<close>




section \<open>The default hooks\<close>

text \<open>
  Claim C9. The base class's \<^verbatim>\<open>beforeReceiveDamage\<close> returns
  \<open>damageToBeDealt\<close> unchanged for every attacker, target and damage, and changes
  no state. Hence a chain of default hooks hands the raw damage through, and in the
  pre-damage fold over the hooks of any effects, an effect whose hook is the default can
  be left out without changing the result.
\<close>

theorem beforeReceiveDamage_default_identity:
  "beforeReceiveDamage this attacker target damageToBeDealt w = (damageToBeDealt, w)
   \<and> fold (\<lambda>effect (damage, w). beforeReceiveDamage effect attacker target damage w) effects
        (damageToBeDealt, w) = (damageToBeDealt, w)
   \<and> (hook this = beforeReceiveDamage this \<longrightarrow>
        fold (\<lambda>effect (damage, w). hook effect attacker target damage w)
          (before @ this # after) (damageToBeDealt, w) =
        fold (\<lambda>effect (damage, w). hook effect attacker target damage w)
          (before @ after) (damageToBeDealt, w))"
proof (intro conjI impI)
  show "beforeReceiveDamage this attacker target damageToBeDealt w = (damageToBeDealt, w)"
    by (simp add: beforeReceiveDamage_def)
  show "fold (\<lambda>effect (damage, w). beforeReceiveDamage effect attacker target damage w) effects
        (damageToBeDealt, w) = (damageToBeDealt, w)"
    by (rule fold_beforeReceiveDamage)
  assume "hook this = beforeReceiveDamage this"
  then show "fold (\<lambda>effect (damage, w). hook effect attacker target damage w)
          (before @ this # after) (damageToBeDealt, w) =
        fold (\<lambda>effect (damage, w). hook effect attacker target damage w)
          (before @ after) (damageToBeDealt, w)"
    by (rule fold_skip_default)
qed

theorem beforeReceiveDamage_default_identity_witness:
  "exampleHook (new_ItemMod (JSString ''poison'')) = beforeReceiveDamage (new_ItemMod (JSString ''poison''))
   \<and> fold (\<lambda>effect (damage, w). exampleHook effect () () damage w)
        ([new_ItemMod (JSString ''halve'')] @ new_ItemMod (JSString ''poison'') # [new_ItemMod (JSString ''halve'')])
        (JSNumber 100, \<lparr>console = []\<rparr>) = (JSNumber 25, \<lparr>console = []\<rparr>)
   \<and> fold (\<lambda>effect (damage, w). exampleHook effect () () damage w)
        ([new_ItemMod (JSString ''halve'')] @ [new_ItemMod (JSString ''halve'')])
        (JSNumber 100, \<lparr>console = []\<rparr>) = (JSNumber 25, \<lparr>console = []\<rparr>)"
proof -
  have h: "exampleHook (new_ItemMod (JSString ''poison'')) =
      beforeReceiveDamage (new_ItemMod (JSString ''poison''))"
    by (simp add: exampleHook_def Get_new_ItemMod)
  have r: "fold (\<lambda>effect (damage, w). exampleHook effect () () damage w)
        ([new_ItemMod (JSString ''halve'')] @ [new_ItemMod (JSString ''halve'')])
        (JSNumber 100, \<lparr>console = []\<rparr>) = (JSNumber 25, \<lparr>console = []\<rparr>)"
    by (simp add: exampleHook_def Get_new_ItemMod)
  from h r beforeReceiveDamage_default_identity
    [of "new_ItemMod (JSString ''poison'')" "()" "()" "JSNumber 100" "\<lparr>console = []\<rparr>" "[]"
        exampleHook "[new_ItemMod (JSString ''halve'')]" "[new_ItemMod (JSString ''halve'')]"]
  show ?thesis by simp
qed

text \<open>
  Claim C10. The base class's \<^verbatim>\<open>onDamageDealt\<close> and
  \<^verbatim>\<open>onDamageReceived\<close> return no value (\<^verbatim>\<open>undefined\<close>) and
  leave the whole state as it was, and its \<^verbatim>\<open>onBattleTurn\<close> returns false
  and leaves the state as it was. So when every attached effect has the default
  \<^verbatim>\<open>onBattleTurn\<close>, the turn-start dispatcher of the spec offers the hook to
  all of them and none takes the turn's one modification.
\<close>

theorem default_hooks_inert:
  "onDamageDealt this attacker target damageDealt w = (JSUndefined, w)
   \<and> onDamageReceived this attacker target damageDealt w = (JSUndefined, w)
   \<and> onBattleTurn this attacker w = (False, w)
   \<and> dispatchOnBattleTurn onBattleTurn effects attacker w = (map (\<lambda>e. (e, False)) effects, w)"
  by (simp add: onDamageDealt_def onDamageReceived_def onBattleTurn_def
        dispatch_default_onBattleTurn)

end
